theory Spec2Isabelle
  imports Complex_Main
begin

section \<open>Timestamp precision\<close>

text \<open>
  The module-level facts the precision decision reads: the \<open>posix\<close> module (absent when
  its import fails; its \<open>_have_functions\<close> attribute may be missing, in which case
  \<open>getattr\<close> yields the empty list), the keys of \<open>sysconfig.get_config_vars()\<close> and
  \<open>sys.platform\<close>.
\<close>

record platform_info =
  posix :: "string list option option"
  config_vars :: "string list"
  sys_platform :: string

definition startswith :: "string \<Rightarrow> string \<Rightarrow> bool" where
  "startswith s p = (take (length p) s = p)"

definition have_futimens :: "platform_info \<Rightarrow> bool" where
  "have_futimens pl =
     (case posix pl of
        None \<Rightarrow> False
      | Some m \<Rightarrow> ''HAVE_FUTIMENS'' \<in> set (case m of None \<Rightarrow> [] | Some fs \<Rightarrow> fs))"

definition have_utimes :: "platform_info \<Rightarrow> bool" where
  "have_utimes pl = (''HAVE_UTIMES'' \<in> set (config_vars pl))"

definition st_mtime_ns_round :: "platform_info \<Rightarrow> int" where
  "st_mtime_ns_round pl =
     (let r = (if have_futimens pl then 0
               else if have_utimes pl then - 3
               else - 9)
      in if startswith (sys_platform pl) ''netbsd'' then - 4 else r)"

text \<open>
  \<open>same_ts_ns\<close>: the exponent is never positive, so \<open>10 ** (-st_mtime_ns_round)\<close> is an
  integer power.
\<close>

definition same_ts_ns :: "platform_info \<Rightarrow> int \<Rightarrow> int \<Rightarrow> bool" where
  "same_ts_ns pl ts_ns1 ts_ns2 =
     (let diff_ts = \<bar>ts_ns1 - ts_ns2\<bar>;
          diff_max = 10 ^ nat (- st_mtime_ns_round pl)
      in diff_ts \<le> diff_max)"

text \<open>
  Python's \<open>round(x, ndigits)\<close> on an \<open>int\<close>: the value itself for \<open>ndigits \<ge> 0\<close>,
  otherwise the nearest multiple of \<open>10 ** (-ndigits)\<close>, a tie going to the even
  quotient.
\<close>

definition py_round :: "int \<Rightarrow> int \<Rightarrow> int" where
  "py_round x ndigits =
     (if 0 \<le> ndigits then x
      else
        let p = 10 ^ nat (- ndigits);
            q = x div p;
            r = x mod p;
            q' = (if p < 2 * r \<or> (2 * r = p \<and> odd q) then q + 1 else q)
        in q' * p)"

text \<open>The granularity of the current precision, in nanoseconds.\<close>

definition granularity :: "platform_info \<Rightarrow> int" where
  "granularity pl = 10 ^ nat (- st_mtime_ns_round pl)"

section \<open>Attribute filter\<close>

text \<open>
  The Python values that occur as extended-attribute collections and as elements of an
  attribute vector. Keys and values of a collection are atoms: \<open>bytes\<close>, \<open>str\<close> or
  \<open>None\<close>. A \<open>dict\<close> is an association list in insertion order (keys distinct).
\<close>

datatype pyatom = ABytes string | AStr string | ANone

datatype pyval =
    PyNone
  | PyInt int
  | PyStr string
  | PyDict "(pyatom \<times> pyatom) list"
  | PyList "pyatom list"
  | PyTuple "pyatom list"

definition SELINUX_KEY :: pyatom where
  "SELINUX_KEY = ABytes ''security.selinux''"

fun no_selinux :: "pyval \<Rightarrow> pyval" where
  "no_selinux (PyDict x) = PyDict (filter (\<lambda>(k, v). k \<noteq> SELINUX_KEY) x)"
| "no_selinux (PyList x) = PyList (filter (\<lambda>k. k \<noteq> SELINUX_KEY) x)"
| "no_selinux _ = PyNone"

text \<open>Python's \<open>==\<close> on these values: two dicts are equal when they hold the same items.\<close>

fun py_eq :: "pyval \<Rightarrow> pyval \<Rightarrow> bool" where
  "py_eq (PyDict a) (PyDict b) = (set a = set b)"
| "py_eq x y = (x = y)"

section \<open>Directory comparator\<close>

unbundle bit_operations_syntax

record stat_result =
  st_mode :: int
  st_uid :: int
  st_gid :: int
  st_rdev :: int
  st_nlink :: int
  st_dev :: int
  st_mtime_ns :: int

definition S_IFMT :: "int \<Rightarrow> int" where
  "S_IFMT mode = mode AND 61440"

definition S_ISCHR :: "int \<Rightarrow> bool" where
  "S_ISCHR mode = (S_IFMT mode = 8192)"

definition S_ISBLK :: "int \<Rightarrow> bool" where
  "S_ISBLK mode = (S_IFMT mode = 24576)"

fun oct_digits :: "nat \<Rightarrow> string" where
  "oct_digits n =
     (if n < 8 then [''01234567'' ! n]
      else oct_digits (n div 8) @ [''01234567'' ! (n mod 8)])"

declare oct_digits.simps [simp del]

definition oct :: "int \<Rightarrow> string" where
  "oct n = (if n < 0 then ''-0o'' @ oct_digits (nat (- n)) else ''0o'' @ oct_digits (nat n))"

text \<open>
  What the loop body reads about one name of \<open>diff.common\<close>: the two \<open>os.stat\<close> results
  (links not followed), \<open>os.path.isdir(path1)\<close>, and the results of \<open>get_flags\<close> and
  \<open>get_all\<close> on each side.
\<close>

record entry =
  filename :: string
  s1 :: stat_result
  s2 :: stat_result
  isdir1 :: bool
  flags1 :: int
  flags2 :: int
  xattrs1 :: pyval
  xattrs2 :: pyval

text \<open>
  The module state the comparator reads. \<open>secs_of\<close> stands for
  \<open>int(st_mtime_ns / 1e9)\<close>, a floating-point division that is left as a parameter.
\<close>

record cmp_env =
  utime_fully_supported :: bool
  have_fuse_mtime_ns :: bool
  platform :: platform_info
  secs_of :: "int \<Rightarrow> int"

record options =
  ignore_flags :: bool
  ignore_xattrs :: bool
  ignore_ns :: bool

datatype attr = St_uid | St_gid | St_rdev | St_nlink

fun getattr :: "stat_result \<Rightarrow> attr \<Rightarrow> int" where
  "getattr s St_uid = st_uid s"
| "getattr s St_gid = st_gid s"
| "getattr s St_rdev = st_rdev s"
| "getattr s St_nlink = st_nlink s"

definition fuse :: "entry \<Rightarrow> bool" where
  "fuse e = (st_dev (s1 e) \<noteq> st_dev (s2 e))"

definition attrs :: "entry \<Rightarrow> attr list" where
  "attrs e =
     (let a = [St_uid, St_gid, St_rdev]
      in if \<not> fuse e \<or> \<not> isdir1 e then a @ [St_nlink] else a)"

definition list_insert :: "nat \<Rightarrow> 'a \<Rightarrow> 'a list \<Rightarrow> 'a list" where
  "list_insert i x xs = take i xs @ [x] @ drop i xs"

text \<open>
  One side's vector, statement by statement; \<open>d[4] = None\<close> is always in range, the
  vector having at least five elements there.
\<close>

definition vector ::
  "cmp_env \<Rightarrow> options \<Rightarrow> entry \<Rightarrow> stat_result \<Rightarrow> int \<Rightarrow> pyval \<Rightarrow> pyval list" where
  "vector env opts e s flags xattrs =
     (let d = [PyStr (filename e)] @ map (\<lambda>a. PyInt (getattr s a)) (attrs e);
          d = list_insert 1 (PyStr (oct (st_mode s))) d;
          d = (if \<not> ignore_flags opts then d @ [PyInt flags] else d);
          d = (if \<not> S_ISCHR (st_mode s) \<and> \<not> S_ISBLK (st_mode s) then d[4 := PyNone] else d);
          d = (if utime_fully_supported env then
                 (if ignore_ns opts then d @ [PyInt (secs_of env (st_mtime_ns s))]
                  else if fuse e \<and> \<not> have_fuse_mtime_ns env
                    then d @ [PyInt (py_round (st_mtime_ns s) (- 4))]
                  else d @ [PyInt (py_round (st_mtime_ns s) (st_mtime_ns_round (platform env)))])
               else d);
          d = (if \<not> ignore_xattrs opts then d @ [no_selinux xattrs] else d)
      in d)"

definition d1 :: "cmp_env \<Rightarrow> options \<Rightarrow> entry \<Rightarrow> pyval list" where
  "d1 env opts e = vector env opts e (s1 e) (flags1 e) (xattrs1 e)"

definition d2 :: "cmp_env \<Rightarrow> options \<Rightarrow> entry \<Rightarrow> pyval list" where
  "d2 env opts e = vector env opts e (s2 e) (flags2 e) (xattrs2 e)"

text \<open>
  A failed \<open>assert_equal\<close>: the statement that raised and the two values it compared.
\<close>

datatype assert_site = Left_only | Right_only | Diff_files | Funny_files | Attr_vectors

datatype failure = AssertionError assert_site "pyval list" "pyval list"

definition assert_equal :: "assert_site \<Rightarrow> pyval list \<Rightarrow> pyval list \<Rightarrow> failure + unit" where
  "assert_equal site first second =
     (if list_all2 py_eq first second then Inr () else Inl (AssertionError site first second))"

fun compare_common :: "cmp_env \<Rightarrow> options \<Rightarrow> entry list \<Rightarrow> failure + unit" where
  "compare_common env opts [] = Inr ()"
| "compare_common env opts (e # es) =
     (case assert_equal Attr_vectors (d1 env opts e) (d2 env opts e) of
        Inl f \<Rightarrow> Inl f
      | Inr _ \<Rightarrow> compare_common env opts es)"

text \<open>
  A \<open>filecmp.dircmp\<close> object: its four difference lists, its common names (each with
  what the loop body reads about it) and the values of its \<open>subdirs\<close>.
\<close>

datatype dircmp =
  Dircmp (left_only: "string list") (right_only: "string list")
         (diff_files: "string list") (funny_files: "string list")
         (common: "entry list") (subdirs: "dircmp list")

fun assert_dirs_equal_cmp :: "cmp_env \<Rightarrow> options \<Rightarrow> dircmp \<Rightarrow> failure + unit"
  and assert_subdirs :: "cmp_env \<Rightarrow> options \<Rightarrow> dircmp list \<Rightarrow> failure + unit" where
  "assert_dirs_equal_cmp env opts (Dircmp lo ro df ff cm sd) =
     (case assert_equal Left_only (map PyStr lo) [] of
        Inl f \<Rightarrow> Inl f
      | Inr _ \<Rightarrow>
     (case assert_equal Right_only (map PyStr ro) [] of
        Inl f \<Rightarrow> Inl f
      | Inr _ \<Rightarrow>
     (case assert_equal Diff_files (map PyStr df) [] of
        Inl f \<Rightarrow> Inl f
      | Inr _ \<Rightarrow>
     (case assert_equal Funny_files (map PyStr ff) [] of
        Inl f \<Rightarrow> Inl f
      | Inr _ \<Rightarrow>
     (case compare_common env opts cm of
        Inl f \<Rightarrow> Inl f
      | Inr _ \<Rightarrow> assert_subdirs env opts sd)))))"
| "assert_subdirs env opts [] = Inr ()"
| "assert_subdirs env opts (sub_diff # rest) =
     (case assert_dirs_equal_cmp env opts sub_diff of
        Inl f \<Rightarrow> Inl f
      | Inr _ \<Rightarrow> assert_subdirs env opts rest)"



section \<open>Capability probes\<close>

text \<open>
  A probe runs a fixed sequence of operating-system calls. Each call either returns or
  raises; its outcome is given by the environment, as a value of \<open>exn + 'a\<close>. The
  exception classes are the ones the handlers name (\<open>OSError\<close> stands for the class and
  its subclasses). The result of a probe is its return value, or the exception that
  leaves it. Memoisation by \<open>lru_cache\<close> and the removal of the scratch directory are
  not modelled.
\<close>

datatype exn = OSError | NotImplementedError | AttributeError

text \<open>
  \<open>try: body; except (classes): pass\<close> followed by \<open>return False\<close>: the body either
  returned \<open>True\<close> (\<open>Inr True\<close>), fell through (\<open>Inr False\<close>) or raised.
\<close>

definition try_except :: "exn list \<Rightarrow> exn + bool \<Rightarrow> exn + bool" where
  "try_except classes body =
     (case body of
        Inl e \<Rightarrow> (if e \<in> set classes then Inr False else Inl e)
      | Inr b \<Rightarrow> Inr b)"











section \<open>Mount synchronisation\<close>

text \<open>
  \<open>wait_for_mountstate\<close> on a clock counted in milliseconds: \<open>time.time()\<close> reads the
  clock, \<open>time.sleep(0.1)\<close> advances it by 100, and \<open>os.path.ismount\<close> is an oracle
  of the time at which it is asked. The function returns the clock at its end together
  with its outcome.
\<close>

datatype timeout_error = TimeoutError string

function wait_loop :: "(int \<Rightarrow> bool) \<Rightarrow> bool \<Rightarrow> int \<Rightarrow> int \<Rightarrow> int \<times> bool" where
  "wait_loop ismount mounted timeout now =
     (if timeout > now then
        (if ismount now = mounted then (now, True)
         else wait_loop ismount mounted timeout (now + 100))
      else (now, False))"
  by pat_completeness auto
termination
  by (relation "measure (\<lambda>(ismount, mounted, timeout, now). nat (timeout - now))") auto

declare wait_loop.simps [simp del]

definition wait_for_mountstate ::
  "(int \<Rightarrow> bool) \<Rightarrow> int \<Rightarrow> string \<Rightarrow> bool \<Rightarrow> int \<Rightarrow> int \<times> (timeout_error + unit)" where
  "wait_for_mountstate ismount now mountpoint mounted timeout =
     (let timeout = timeout + now;
          (now', returned) = wait_loop ismount mounted timeout now
      in if returned then (now', Inr ())
         else
           let message = ''Waiting for '' @ (if mounted then ''mount'' else ''umount'')
                         @ '' of '' @ mountpoint
           in (now', Inl (TimeoutError message)))"

text \<open>
  \<open>fuse_mount\<close> as the sequence of calls one process makes, from its entry to the end of
  the context manager. The environment says what each \<open>os.fork()\<close> returns in this
  process (0 in the child, the child's pid in the parent), how \<open>self.cmd\<close> ends, and
  whether the two waits return or raise. \<open>Yield\<close> is the point where the caller's
  \<open>with\<close> body runs.
\<close>

datatype exit_code = EXIT_SUCCESS | EXIT_WARNING | EXIT_ERROR

datatype cmd_outcome = Cmd_returns | Cmd_raises | Cmd_exits_process

datatype event =
    Mkdtemp
  | Mkdir string
  | Fork
  | Setsid
  | Os_exit
  | Cmd "string list" bool
  | Print_fatal
  | Wait_for_mountstate string bool
  | Yield
  | Umount string
  | Rmdir string
  | Sleep
  | Raise

record mount_env =
  mkdtemp_result :: string
  fork1 :: int
  fork2 :: int
  cmd_result :: cmd_outcome
  wait_mounted_returns :: bool
  wait_unmounted_returns :: bool

definition mount_and_unmount :: "mount_env \<Rightarrow> string \<Rightarrow> event list" where
  "mount_and_unmount env mountpoint =
     [Wait_for_mountstate mountpoint True] @
     (if wait_mounted_returns env then
        [Yield, Umount mountpoint, Wait_for_mountstate mountpoint False] @
        (if wait_unmounted_returns env then [Rmdir mountpoint, Sleep] else [Raise])
      else [Raise])"

definition fuse_mount ::
  "mount_env \<Rightarrow> string \<Rightarrow> string option \<Rightarrow> string list \<Rightarrow> bool \<Rightarrow> bool
     \<Rightarrow> exit_code option \<Rightarrow> event list" where
  "fuse_mount env location mountpoint_arg opts fork os_fork exit_code_arg =
     (let (mk, mountpoint) =
            (case mountpoint_arg of
               None \<Rightarrow> (Mkdtemp, mkdtemp_result env)
             | Some m \<Rightarrow> (Mkdir m, m));
          args = [''--repo='' @ location, ''mount'', mountpoint] @ opts
      in [mk] @
         (if os_fork then
            [Fork] @
            (if fork1 env = 0 then
               [Setsid, Fork] @
               (if fork2 env > 0 then [Os_exit]
                else
                  [Cmd args False] @
                  (if cmd_result env = Cmd_exits_process then []
                   else [Print_fatal, Os_exit]))
             else mount_and_unmount env mountpoint)
          else
            [Cmd args fork] @
            (case cmd_result env of
               Cmd_raises \<Rightarrow> [Raise]
             | Cmd_exits_process \<Rightarrow> []
             | Cmd_returns \<Rightarrow>
                 (if (case exit_code_arg of None \<Rightarrow> EXIT_SUCCESS | Some c \<Rightarrow> c) = EXIT_ERROR
                  then [Yield]
                  else mount_and_unmount env mountpoint))))"

section \<open>Timestamp precision: results\<close>

text \<open>
  C5: the rounding exponent is 0 when \<open>posix\<close> lists \<open>HAVE_FUTIMENS\<close>, else -3 when the
  build configuration has \<open>HAVE_UTIMES\<close>, else -9; on a platform whose name starts with
  \<open>netbsd\<close> it is -4 whatever the first decision gave.
\<close>

theorem st_mtime_ns_round_decision:
  "(startswith (sys_platform pl) ''netbsd'' \<longrightarrow> st_mtime_ns_round pl = - 4) \<and>
   (\<not> startswith (sys_platform pl) ''netbsd'' \<longrightarrow>
      (have_futimens pl \<longrightarrow> st_mtime_ns_round pl = 0) \<and>
      (\<not> have_futimens pl \<and> have_utimes pl \<longrightarrow> st_mtime_ns_round pl = - 3) \<and>
      (\<not> have_futimens pl \<and> \<not> have_utimes pl \<longrightarrow> st_mtime_ns_round pl = - 9))"
  by (simp add: st_mtime_ns_round_def)

theorem st_mtime_ns_round_decision_witness:
  "st_mtime_ns_round \<lparr>posix = Some (Some [''HAVE_FUTIMENS'']), config_vars = [''HAVE_UTIMES''], sys_platform = ''netbsd9''\<rparr> = - 4 \<and>
   st_mtime_ns_round \<lparr>posix = Some (Some [''HAVE_FUTIMENS'']), config_vars = [''HAVE_UTIMES''], sys_platform = ''linux''\<rparr> = 0 \<and>
   st_mtime_ns_round \<lparr>posix = Some None, config_vars = [''HAVE_UTIMES''], sys_platform = ''darwin''\<rparr> = - 3 \<and>
   st_mtime_ns_round \<lparr>posix = None, config_vars = [], sys_platform = ''win32''\<rparr> = - 9"
  using st_mtime_ns_round_decision
    [of "\<lparr>posix = Some (Some [''HAVE_FUTIMENS'']), config_vars = [''HAVE_UTIMES''], sys_platform = ''netbsd9''\<rparr>"]
    st_mtime_ns_round_decision
    [of "\<lparr>posix = Some (Some [''HAVE_FUTIMENS'']), config_vars = [''HAVE_UTIMES''], sys_platform = ''linux''\<rparr>"]
    st_mtime_ns_round_decision
    [of "\<lparr>posix = Some None, config_vars = [''HAVE_UTIMES''], sys_platform = ''darwin''\<rparr>"]
    st_mtime_ns_round_decision
    [of "\<lparr>posix = None, config_vars = [], sys_platform = ''win32''\<rparr>"]
  by (simp add: have_futimens_def have_utimes_def startswith_def)

subsection \<open>Rounding and comparison of timestamps\<close>

lemma py_round_near:
  assumes "ndigits \<le> 0"
  shows "2 * \<bar>py_round x ndigits - x\<bar> \<le> 10 ^ nat (- ndigits)"
proof (cases "ndigits = 0")
  case True
  then show ?thesis by (simp add: py_round_def)
next
  case False
  define p :: int where "p = 10 ^ nat (- ndigits)"
  define r where "r = x mod p"
  define q where "q = x div p"
  have p: "0 < p" by (simp add: p_def)
  have x: "x = q * p + r" by (simp add: q_def r_def)
  have r: "0 \<le> r" "r < p" using p by (simp_all add: r_def)
  have "2 * \<bar>py_round x ndigits - x\<bar> \<le> p"
  proof (cases "p < 2 * r \<or> (2 * r = p \<and> odd q)")
    case True
    then have "py_round x ndigits = (q + 1) * p"
      using False assms by (simp add: py_round_def Let_def p_def q_def r_def)
    then have "py_round x ndigits - x = p - r"
      using x by (simp add: algebra_simps)
    then show ?thesis using True r by (auto simp: abs_if)
  next
    case F: False
    then have "py_round x ndigits = q * p"
      using False assms by (simp add: py_round_def Let_def p_def q_def r_def)
    then have "py_round x ndigits - x = - r"
      using x by (simp add: algebra_simps)
    then show ?thesis using F r by (auto simp: abs_if)
  qed
  then show ?thesis by (simp add: p_def)
qed

lemma py_round_separates:
  assumes "ndigits \<le> 0" and "10 ^ nat (- ndigits) < \<bar>a - b\<bar>"
  shows "py_round a ndigits \<noteq> py_round b ndigits"
proof
  assume eq: "py_round a ndigits = py_round b ndigits"
  define p :: int where "p = 10 ^ nat (- ndigits)"
  have "2 * \<bar>py_round a ndigits - a\<bar> \<le> p" "2 * \<bar>py_round b ndigits - b\<bar> \<le> p"
    unfolding p_def using assms(1) by (rule py_round_near)+
  with eq have "\<bar>a - b\<bar> \<le> p" by (simp add: abs_if split: if_splits)
  with assms(2) show False by (simp add: p_def)
qed

lemma st_mtime_ns_round_nonpos: "st_mtime_ns_round pl \<le> 0"
  by (simp add: st_mtime_ns_round_def Let_def)

lemma granularity_pos: "0 < granularity pl"
  by (simp add: granularity_def)

text \<open>
  C1 (as amended): \<open>same_ts_ns\<close> accepts every pair of timestamps that differ by at most
  the granularity of the current precision, and rejects every pair that differs by more
  than twice the granularity; the comparator's rounding at the current precision gives
  different values to every pair that differs by more than twice the granularity.
  Nothing is said about the rounded values of two timestamps within the granularity.
\<close>

theorem ts_comparison_granularity:
  "(\<bar>a - b\<bar> \<le> granularity pl \<longrightarrow> same_ts_ns pl a b) \<and>
   (2 * granularity pl < \<bar>a - b\<bar> \<longrightarrow>
      \<not> same_ts_ns pl a b \<and>
      py_round a (st_mtime_ns_round pl) \<noteq> py_round b (st_mtime_ns_round pl))"
proof (intro conjI impI)
  assume "\<bar>a - b\<bar> \<le> granularity pl"
  then show "same_ts_ns pl a b" by (simp add: same_ts_ns_def granularity_def)
next
  assume far: "2 * granularity pl < \<bar>a - b\<bar>"
  with granularity_pos [of pl] have g: "granularity pl < \<bar>a - b\<bar>" by linarith
  then show "\<not> same_ts_ns pl a b" by (simp add: same_ts_ns_def granularity_def)
  from g show "py_round a (st_mtime_ns_round pl) \<noteq> py_round b (st_mtime_ns_round pl)"
    unfolding granularity_def by (rule py_round_separates [OF st_mtime_ns_round_nonpos])
qed

theorem ts_comparison_granularity_witness:
  "same_ts_ns \<lparr>posix = None, config_vars = [''HAVE_UTIMES''], sys_platform = ''linux''\<rparr> 1499 1500 \<and>
   \<not> same_ts_ns \<lparr>posix = None, config_vars = [''HAVE_UTIMES''], sys_platform = ''linux''\<rparr> 1000 3500 \<and>
   py_round 1000 (st_mtime_ns_round \<lparr>posix = None, config_vars = [''HAVE_UTIMES''], sys_platform = ''linux''\<rparr>)
     \<noteq> py_round 3500 (st_mtime_ns_round \<lparr>posix = None, config_vars = [''HAVE_UTIMES''], sys_platform = ''linux''\<rparr>)"
  using ts_comparison_granularity
    [of 1499 1500 "\<lparr>posix = None, config_vars = [''HAVE_UTIMES''], sys_platform = ''linux''\<rparr>"]
    ts_comparison_granularity
    [of 1000 3500 "\<lparr>posix = None, config_vars = [''HAVE_UTIMES''], sys_platform = ''linux''\<rparr>"]
  by (simp add: granularity_def st_mtime_ns_round_def have_futimens_def have_utimes_def startswith_def)


text \<open>
  The rounding does not identify all timestamps within the granularity: at microsecond
  precision 1499 and 1500 differ by 1 and round to 1000 and 2000; at nanosecond
  precision 5 and 6 differ by the granularity and are left as they are.
\<close>

theorem ts_rounding_within_granularity_counterexample:
  "\<bar>1499 - 1500\<bar> \<le> granularity \<lparr>posix = None, config_vars = [''HAVE_UTIMES''], sys_platform = ''linux''\<rparr> \<and>
   py_round 1499 (st_mtime_ns_round \<lparr>posix = None, config_vars = [''HAVE_UTIMES''], sys_platform = ''linux''\<rparr>) = 1000 \<and>
   py_round 1500 (st_mtime_ns_round \<lparr>posix = None, config_vars = [''HAVE_UTIMES''], sys_platform = ''linux''\<rparr>) = 2000 \<and>
   \<bar>5 - 6\<bar> \<le> granularity \<lparr>posix = Some (Some [''HAVE_FUTIMENS'']), config_vars = [], sys_platform = ''linux''\<rparr> \<and>
   py_round 5 (st_mtime_ns_round \<lparr>posix = Some (Some [''HAVE_FUTIMENS'']), config_vars = [], sys_platform = ''linux''\<rparr>) = 5 \<and>
   py_round 6 (st_mtime_ns_round \<lparr>posix = Some (Some [''HAVE_FUTIMENS'']), config_vars = [], sys_platform = ''linux''\<rparr>) = 6"
  by (simp add: granularity_def st_mtime_ns_round_def have_futimens_def have_utimes_def
        startswith_def py_round_def)

section \<open>Attribute filter: results\<close>

lemma py_eq_refl: "py_eq x x"
  by (cases x) simp_all

text \<open>
  C8: on a dict and on a list, \<open>no_selinux\<close> returns a collection of the same kind that
  holds exactly the entries whose key is not \<open>b"security.selinux"\<close>, in their original
  order; so a collection with that key filters to what the collection without it
  filters to, and the two filtered collections compare equal.
\<close>

theorem no_selinux_filters:
  "no_selinux (PyDict x) = PyDict (filter (\<lambda>kv. fst kv \<noteq> ABytes ''security.selinux'') x) \<and>
   no_selinux (PyList y) = PyList (filter (\<lambda>k. k \<noteq> ABytes ''security.selinux'') y) \<and>
   no_selinux (PyDict (x @ (ABytes ''security.selinux'', v) # x')) = no_selinux (PyDict (x @ x')) \<and>
   no_selinux (PyList (y @ ABytes ''security.selinux'' # y')) = no_selinux (PyList (y @ y')) \<and>
   py_eq (no_selinux (PyDict (x @ (ABytes ''security.selinux'', v) # x'))) (no_selinux (PyDict (x @ x'))) \<and>
   py_eq (no_selinux (PyList (y @ ABytes ''security.selinux'' # y'))) (no_selinux (PyList (y @ y')))"
  by (simp add: SELINUX_KEY_def case_prod_unfold)

theorem no_selinux_filters_witness:
  "no_selinux (PyDict [(ABytes ''user.foo'', ABytes ''1''),
                       (ABytes ''security.selinux'', ABytes ''ctx''),
                       (ABytes ''user.bar'', ABytes ''2'')])
     = PyDict [(ABytes ''user.foo'', ABytes ''1''), (ABytes ''user.bar'', ABytes ''2'')] \<and>
   no_selinux (PyList [ABytes ''user.foo'', ABytes ''security.selinux'', ABytes ''user.bar''])
     = PyList [ABytes ''user.foo'', ABytes ''user.bar''] \<and>
   no_selinux (PyList [ABytes ''user.foo'', ABytes ''security.selinux'', ABytes ''user.bar''])
     = no_selinux (PyList [ABytes ''user.foo'', ABytes ''user.bar''])"
  using no_selinux_filters
    [where x = "[(ABytes ''user.foo'', ABytes ''1''),
                 (ABytes ''security.selinux'', ABytes ''ctx''),
                 (ABytes ''user.bar'', ABytes ''2'')]"
       and y = "[ABytes ''user.foo'', ABytes ''security.selinux'', ABytes ''user.bar'']"]
    no_selinux_filters
    [where y = "[ABytes ''user.foo'']" and y' = "[ABytes ''user.bar'']"]
  by simp

text \<open>
  C10: on an input that is neither a dict nor a list, \<open>no_selinux\<close> returns \<open>None\<close>,
  whether or not the security-label key occurs in it.
\<close>

theorem no_selinux_other_types:
  "(\<forall>d. x \<noteq> PyDict d) \<and> (\<forall>l. x \<noteq> PyList l) \<Longrightarrow> no_selinux x = PyNone"
  by (cases x) simp_all

theorem no_selinux_other_types_witness:
  "no_selinux (PyTuple [ABytes ''user.comment'']) = PyNone \<and>
   no_selinux (PyStr ''user.comment'') = PyNone"
  using no_selinux_other_types [of "PyTuple [ABytes ''user.comment'']"]
        no_selinux_other_types [of "PyStr ''user.comment''"]
  by simp

section \<open>Directory comparator: results\<close>

text \<open>The vector of one side, written out field by field.\<close>

lemma vector_explicit:
  "vector env opts e s flags xattrs =
     [PyStr (filename e), PyStr (oct (st_mode s)), PyInt (st_uid s), PyInt (st_gid s),
      (if \<not> S_ISCHR (st_mode s) \<and> \<not> S_ISBLK (st_mode s) then PyNone else PyInt (st_rdev s))]
     @ (if isdir1 e \<and> st_dev (s1 e) \<noteq> st_dev (s2 e) then [] else [PyInt (st_nlink s)])
     @ (if ignore_flags opts then [] else [PyInt flags])
     @ (if utime_fully_supported env then
          [PyInt (if ignore_ns opts then secs_of env (st_mtime_ns s)
                  else if fuse e \<and> \<not> have_fuse_mtime_ns env then py_round (st_mtime_ns s) (- 4)
                  else py_round (st_mtime_ns s) (st_mtime_ns_round (platform env)))]
        else [])
     @ (if ignore_xattrs opts then [] else [no_selinux xattrs])"
  by (simp add: vector_def attrs_def list_insert_def fuse_def Let_def)

lemma vector_length:
  "length (vector env opts e s flags xattrs) =
     5 + (if isdir1 e \<and> st_dev (s1 e) \<noteq> st_dev (s2 e) then 0 else 1)
       + (if ignore_flags opts then 0 else 1)
       + (if utime_fully_supported env then 1 else 0)
       + (if ignore_xattrs opts then 0 else 1)"
  by (simp add: vector_explicit)

lemma vector_nth_4:
  "vector env opts e s flags xattrs ! 4 =
     (if \<not> S_ISCHR (st_mode s) \<and> \<not> S_ISBLK (st_mode s) then PyNone else PyInt (st_rdev s))"
  by (simp add: vector_explicit)

lemma vector_nth_5:
  "\<not> (isdir1 e \<and> st_dev (s1 e) \<noteq> st_dev (s2 e)) \<Longrightarrow>
     vector env opts e s flags xattrs ! 5 = PyInt (st_nlink s)"
  by (auto simp add: vector_explicit)

text \<open>
  C6: the link count is among the compared attributes, and then at index 5 of both
  vectors, exactly when it is not the case that the left path is a directory and the
  two sides report different \<open>st_dev\<close>; otherwise both vectors are one element
  shorter.
\<close>

theorem link_count_in_vectors:
  "(St_nlink \<in> set (attrs e) \<longleftrightarrow> \<not> (isdir1 e \<and> st_dev (s1 e) \<noteq> st_dev (s2 e))) \<and>
   (\<not> (isdir1 e \<and> st_dev (s1 e) \<noteq> st_dev (s2 e)) \<longrightarrow>
      d1 env opts e ! 5 = PyInt (st_nlink (s1 e)) \<and>
      d2 env opts e ! 5 = PyInt (st_nlink (s2 e)) \<and>
      length (d1 env opts e) = 6 + (if ignore_flags opts then 0 else 1)
         + (if utime_fully_supported env then 1 else 0) + (if ignore_xattrs opts then 0 else 1) \<and>
      length (d2 env opts e) = length (d1 env opts e)) \<and>
   (isdir1 e \<and> st_dev (s1 e) \<noteq> st_dev (s2 e) \<longrightarrow>
      length (d1 env opts e) = 5 + (if ignore_flags opts then 0 else 1)
         + (if utime_fully_supported env then 1 else 0) + (if ignore_xattrs opts then 0 else 1) \<and>
      length (d2 env opts e) = length (d1 env opts e))"
proof (intro conjI impI)
  show "St_nlink \<in> set (attrs e) \<longleftrightarrow> \<not> (isdir1 e \<and> st_dev (s1 e) \<noteq> st_dev (s2 e))"
    by (auto simp: attrs_def fuse_def Let_def)
next
  assume inc: "\<not> (isdir1 e \<and> st_dev (s1 e) \<noteq> st_dev (s2 e))"
  show "d1 env opts e ! 5 = PyInt (st_nlink (s1 e))"
    unfolding d1_def using inc by (rule vector_nth_5)
  show "d2 env opts e ! 5 = PyInt (st_nlink (s2 e))"
    unfolding d2_def using inc by (rule vector_nth_5)
  show "length (d1 env opts e) = 6 + (if ignore_flags opts then 0 else 1)
         + (if utime_fully_supported env then 1 else 0) + (if ignore_xattrs opts then 0 else 1)"
    using inc by (simp add: d1_def vector_length)
  show "length (d2 env opts e) = length (d1 env opts e)"
    by (simp add: d1_def d2_def vector_length)
next
  assume om: "isdir1 e \<and> st_dev (s1 e) \<noteq> st_dev (s2 e)"
  show "length (d1 env opts e) = 5 + (if ignore_flags opts then 0 else 1)
         + (if utime_fully_supported env then 1 else 0) + (if ignore_xattrs opts then 0 else 1)"
    using om by (simp add: d1_def vector_length)
  show "length (d2 env opts e) = length (d1 env opts e)"
    by (simp add: d1_def d2_def vector_length)
qed

theorem link_count_in_vectors_witness:
  "d1 \<lparr>utime_fully_supported = True, have_fuse_mtime_ns = True,
        platform = \<lparr>posix = Some (Some [''HAVE_FUTIMENS'']), config_vars = [],
                      sys_platform = ''linux''\<rparr>,
        secs_of = (\<lambda>ns. ns div 1000000000)\<rparr>
      \<lparr>ignore_flags = False, ignore_xattrs = False, ignore_ns = False\<rparr>
      \<lparr>filename = ''file'',
         s1 = \<lparr>st_mode = 33188, st_uid = 1000, st_gid = 1000, st_rdev = 0, st_nlink = 2,
                st_dev = 2049, st_mtime_ns = 1000\<rparr>,
         s2 = \<lparr>st_mode = 33188, st_uid = 1000, st_gid = 1000, st_rdev = 0, st_nlink = 1,
                st_dev = 45, st_mtime_ns = 1000\<rparr>,
         isdir1 = False, flags1 = 0, flags2 = 0, xattrs1 = PyDict [], xattrs2 = PyDict []\<rparr>
      ! 5 = PyInt 2 \<and>
   d2 \<lparr>utime_fully_supported = True, have_fuse_mtime_ns = True,
        platform = \<lparr>posix = Some (Some [''HAVE_FUTIMENS'']), config_vars = [],
                      sys_platform = ''linux''\<rparr>,
        secs_of = (\<lambda>ns. ns div 1000000000)\<rparr>
      \<lparr>ignore_flags = False, ignore_xattrs = False, ignore_ns = False\<rparr>
      \<lparr>filename = ''file'',
         s1 = \<lparr>st_mode = 33188, st_uid = 1000, st_gid = 1000, st_rdev = 0, st_nlink = 2,
                st_dev = 2049, st_mtime_ns = 1000\<rparr>,
         s2 = \<lparr>st_mode = 33188, st_uid = 1000, st_gid = 1000, st_rdev = 0, st_nlink = 1,
                st_dev = 45, st_mtime_ns = 1000\<rparr>,
         isdir1 = False, flags1 = 0, flags2 = 0, xattrs1 = PyDict [], xattrs2 = PyDict []\<rparr>
      ! 5 = PyInt 1 \<and>
   length (d1 \<lparr>utime_fully_supported = True, have_fuse_mtime_ns = True,
        platform = \<lparr>posix = Some (Some [''HAVE_FUTIMENS'']), config_vars = [],
                      sys_platform = ''linux''\<rparr>,
        secs_of = (\<lambda>ns. ns div 1000000000)\<rparr>
      \<lparr>ignore_flags = False, ignore_xattrs = False, ignore_ns = False\<rparr>
      \<lparr>filename = ''dir'',
         s1 = \<lparr>st_mode = 16877, st_uid = 1000, st_gid = 1000, st_rdev = 0, st_nlink = 3,
                st_dev = 2049, st_mtime_ns = 1000\<rparr>,
         s2 = \<lparr>st_mode = 16877, st_uid = 1000, st_gid = 1000, st_rdev = 0, st_nlink = 1,
                st_dev = 45, st_mtime_ns = 1000\<rparr>,
         isdir1 = True, flags1 = 0, flags2 = 0, xattrs1 = PyDict [], xattrs2 = PyDict []\<rparr>)
     = 8 \<and>
   St_nlink \<notin> set (attrs
      \<lparr>filename = ''dir'',
         s1 = \<lparr>st_mode = 16877, st_uid = 1000, st_gid = 1000, st_rdev = 0, st_nlink = 3,
                st_dev = 2049, st_mtime_ns = 1000\<rparr>,
         s2 = \<lparr>st_mode = 16877, st_uid = 1000, st_gid = 1000, st_rdev = 0, st_nlink = 1,
                st_dev = 45, st_mtime_ns = 1000\<rparr>,
         isdir1 = True, flags1 = 0, flags2 = 0, xattrs1 = PyDict [], xattrs2 = PyDict []\<rparr>)"
  using link_count_in_vectors
    [where env = "\<lparr>utime_fully_supported = True, have_fuse_mtime_ns = True,
        platform = \<lparr>posix = Some (Some [''HAVE_FUTIMENS'']), config_vars = [],
                      sys_platform = ''linux''\<rparr>,
        secs_of = (\<lambda>ns. ns div 1000000000)\<rparr>"
       and opts = "\<lparr>ignore_flags = False, ignore_xattrs = False, ignore_ns = False\<rparr>"
       and e = "\<lparr>filename = ''file'',
         s1 = \<lparr>st_mode = 33188, st_uid = 1000, st_gid = 1000, st_rdev = 0, st_nlink = 2,
                st_dev = 2049, st_mtime_ns = 1000\<rparr>,
         s2 = \<lparr>st_mode = 33188, st_uid = 1000, st_gid = 1000, st_rdev = 0, st_nlink = 1,
                st_dev = 45, st_mtime_ns = 1000\<rparr>,
         isdir1 = False, flags1 = 0, flags2 = 0, xattrs1 = PyDict [], xattrs2 = PyDict []\<rparr>"]
    link_count_in_vectors
    [where env = "\<lparr>utime_fully_supported = True, have_fuse_mtime_ns = True,
        platform = \<lparr>posix = Some (Some [''HAVE_FUTIMENS'']), config_vars = [],
                      sys_platform = ''linux''\<rparr>,
        secs_of = (\<lambda>ns. ns div 1000000000)\<rparr>"
       and opts = "\<lparr>ignore_flags = False, ignore_xattrs = False, ignore_ns = False\<rparr>"
       and e = "\<lparr>filename = ''dir'',
         s1 = \<lparr>st_mode = 16877, st_uid = 1000, st_gid = 1000, st_rdev = 0, st_nlink = 3,
                st_dev = 2049, st_mtime_ns = 1000\<rparr>,
         s2 = \<lparr>st_mode = 16877, st_uid = 1000, st_gid = 1000, st_rdev = 0, st_nlink = 1,
                st_dev = 45, st_mtime_ns = 1000\<rparr>,
         isdir1 = True, flags1 = 0, flags2 = 0, xattrs1 = PyDict [], xattrs2 = PyDict []\<rparr>"]
  by simp

text \<open>
  C7: the device-id field (index 4) of a side's vector is \<open>None\<close> when that side's mode
  is neither a character nor a block device, and the raw \<open>st_rdev\<close> otherwise; two
  non-device entries therefore agree on the field whatever their \<open>st_rdev\<close>, and two
  device entries agree on it exactly when their \<open>st_rdev\<close> are equal.
\<close>

theorem device_id_field:
  "(\<not> S_ISCHR (st_mode (s1 e)) \<and> \<not> S_ISBLK (st_mode (s1 e)) \<longrightarrow> d1 env opts e ! 4 = PyNone) \<and>
   (S_ISCHR (st_mode (s1 e)) \<or> S_ISBLK (st_mode (s1 e)) \<longrightarrow>
      d1 env opts e ! 4 = PyInt (st_rdev (s1 e))) \<and>
   (\<not> S_ISCHR (st_mode (s2 e)) \<and> \<not> S_ISBLK (st_mode (s2 e)) \<longrightarrow> d2 env opts e ! 4 = PyNone) \<and>
   (S_ISCHR (st_mode (s2 e)) \<or> S_ISBLK (st_mode (s2 e)) \<longrightarrow>
      d2 env opts e ! 4 = PyInt (st_rdev (s2 e))) \<and>
   (\<not> S_ISCHR (st_mode (s1 e)) \<and> \<not> S_ISBLK (st_mode (s1 e)) \<and>
    \<not> S_ISCHR (st_mode (s2 e)) \<and> \<not> S_ISBLK (st_mode (s2 e)) \<longrightarrow>
      py_eq (d1 env opts e ! 4) (d2 env opts e ! 4)) \<and>
   ((S_ISCHR (st_mode (s1 e)) \<or> S_ISBLK (st_mode (s1 e))) \<and>
    (S_ISCHR (st_mode (s2 e)) \<or> S_ISBLK (st_mode (s2 e))) \<longrightarrow>
      (py_eq (d1 env opts e ! 4) (d2 env opts e ! 4) \<longleftrightarrow> st_rdev (s1 e) = st_rdev (s2 e)))"
  by (auto simp: d1_def d2_def vector_nth_4)

theorem device_id_field_witness:
  "d1 \<lparr>utime_fully_supported = True, have_fuse_mtime_ns = True,
        platform = \<lparr>posix = Some (Some [''HAVE_FUTIMENS'']), config_vars = [],
                      sys_platform = ''linux''\<rparr>,
        secs_of = (\<lambda>ns. ns div 1000000000)\<rparr>
      \<lparr>ignore_flags = False, ignore_xattrs = False, ignore_ns = False\<rparr>
      \<lparr>filename = ''file'',
         s1 = \<lparr>st_mode = 33188, st_uid = 1000, st_gid = 1000, st_rdev = 5, st_nlink = 1,
                st_dev = 2049, st_mtime_ns = 1000\<rparr>,
         s2 = \<lparr>st_mode = 33188, st_uid = 1000, st_gid = 1000, st_rdev = 7, st_nlink = 1,
                st_dev = 2049, st_mtime_ns = 1000\<rparr>,
         isdir1 = False, flags1 = 0, flags2 = 0, xattrs1 = PyDict [], xattrs2 = PyDict []\<rparr>
      ! 4 = PyNone \<and>
   d2 \<lparr>utime_fully_supported = True, have_fuse_mtime_ns = True,
        platform = \<lparr>posix = Some (Some [''HAVE_FUTIMENS'']), config_vars = [],
                      sys_platform = ''linux''\<rparr>,
        secs_of = (\<lambda>ns. ns div 1000000000)\<rparr>
      \<lparr>ignore_flags = False, ignore_xattrs = False, ignore_ns = False\<rparr>
      \<lparr>filename = ''file'',
         s1 = \<lparr>st_mode = 33188, st_uid = 1000, st_gid = 1000, st_rdev = 5, st_nlink = 1,
                st_dev = 2049, st_mtime_ns = 1000\<rparr>,
         s2 = \<lparr>st_mode = 33188, st_uid = 1000, st_gid = 1000, st_rdev = 7, st_nlink = 1,
                st_dev = 2049, st_mtime_ns = 1000\<rparr>,
         isdir1 = False, flags1 = 0, flags2 = 0, xattrs1 = PyDict [], xattrs2 = PyDict []\<rparr>
      ! 4 = PyNone \<and>
   d1 \<lparr>utime_fully_supported = True, have_fuse_mtime_ns = True,
        platform = \<lparr>posix = Some (Some [''HAVE_FUTIMENS'']), config_vars = [],
                      sys_platform = ''linux''\<rparr>,
        secs_of = (\<lambda>ns. ns div 1000000000)\<rparr>
      \<lparr>ignore_flags = False, ignore_xattrs = False, ignore_ns = False\<rparr>
      \<lparr>filename = ''tty'',
         s1 = \<lparr>st_mode = 8612, st_uid = 0, st_gid = 5, st_rdev = 1025, st_nlink = 1,
                st_dev = 2049, st_mtime_ns = 1000\<rparr>,
         s2 = \<lparr>st_mode = 8612, st_uid = 0, st_gid = 5, st_rdev = 1026, st_nlink = 1,
                st_dev = 2049, st_mtime_ns = 1000\<rparr>,
         isdir1 = False, flags1 = 0, flags2 = 0, xattrs1 = PyDict [], xattrs2 = PyDict []\<rparr>
      ! 4 = PyInt 1025 \<and>
   \<not> py_eq
     (d1 \<lparr>utime_fully_supported = True, have_fuse_mtime_ns = True,
        platform = \<lparr>posix = Some (Some [''HAVE_FUTIMENS'']), config_vars = [],
                      sys_platform = ''linux''\<rparr>,
        secs_of = (\<lambda>ns. ns div 1000000000)\<rparr>
      \<lparr>ignore_flags = False, ignore_xattrs = False, ignore_ns = False\<rparr>
      \<lparr>filename = ''tty'',
         s1 = \<lparr>st_mode = 8612, st_uid = 0, st_gid = 5, st_rdev = 1025, st_nlink = 1,
                st_dev = 2049, st_mtime_ns = 1000\<rparr>,
         s2 = \<lparr>st_mode = 8612, st_uid = 0, st_gid = 5, st_rdev = 1026, st_nlink = 1,
                st_dev = 2049, st_mtime_ns = 1000\<rparr>,
         isdir1 = False, flags1 = 0, flags2 = 0, xattrs1 = PyDict [], xattrs2 = PyDict []\<rparr>
      ! 4)
     (d2 \<lparr>utime_fully_supported = True, have_fuse_mtime_ns = True,
        platform = \<lparr>posix = Some (Some [''HAVE_FUTIMENS'']), config_vars = [],
                      sys_platform = ''linux''\<rparr>,
        secs_of = (\<lambda>ns. ns div 1000000000)\<rparr>
      \<lparr>ignore_flags = False, ignore_xattrs = False, ignore_ns = False\<rparr>
      \<lparr>filename = ''tty'',
         s1 = \<lparr>st_mode = 8612, st_uid = 0, st_gid = 5, st_rdev = 1025, st_nlink = 1,
                st_dev = 2049, st_mtime_ns = 1000\<rparr>,
         s2 = \<lparr>st_mode = 8612, st_uid = 0, st_gid = 5, st_rdev = 1026, st_nlink = 1,
                st_dev = 2049, st_mtime_ns = 1000\<rparr>,
         isdir1 = False, flags1 = 0, flags2 = 0, xattrs1 = PyDict [], xattrs2 = PyDict []\<rparr>
      ! 4)"
  using device_id_field
    [where env = "\<lparr>utime_fully_supported = True, have_fuse_mtime_ns = True,
        platform = \<lparr>posix = Some (Some [''HAVE_FUTIMENS'']), config_vars = [],
                      sys_platform = ''linux''\<rparr>,
        secs_of = (\<lambda>ns. ns div 1000000000)\<rparr>"
       and opts = "\<lparr>ignore_flags = False, ignore_xattrs = False, ignore_ns = False\<rparr>"
       and e = "\<lparr>filename = ''file'',
         s1 = \<lparr>st_mode = 33188, st_uid = 1000, st_gid = 1000, st_rdev = 5, st_nlink = 1,
                st_dev = 2049, st_mtime_ns = 1000\<rparr>,
         s2 = \<lparr>st_mode = 33188, st_uid = 1000, st_gid = 1000, st_rdev = 7, st_nlink = 1,
                st_dev = 2049, st_mtime_ns = 1000\<rparr>,
         isdir1 = False, flags1 = 0, flags2 = 0, xattrs1 = PyDict [], xattrs2 = PyDict []\<rparr>"]
    device_id_field
    [where env = "\<lparr>utime_fully_supported = True, have_fuse_mtime_ns = True,
        platform = \<lparr>posix = Some (Some [''HAVE_FUTIMENS'']), config_vars = [],
                      sys_platform = ''linux''\<rparr>,
        secs_of = (\<lambda>ns. ns div 1000000000)\<rparr>"
       and opts = "\<lparr>ignore_flags = False, ignore_xattrs = False, ignore_ns = False\<rparr>"
       and e = "\<lparr>filename = ''tty'',
         s1 = \<lparr>st_mode = 8612, st_uid = 0, st_gid = 5, st_rdev = 1025, st_nlink = 1,
                st_dev = 2049, st_mtime_ns = 1000\<rparr>,
         s2 = \<lparr>st_mode = 8612, st_uid = 0, st_gid = 5, st_rdev = 1026, st_nlink = 1,
                st_dev = 2049, st_mtime_ns = 1000\<rparr>,
         isdir1 = False, flags1 = 0, flags2 = 0, xattrs1 = PyDict [], xattrs2 = PyDict []\<rparr>"]
  by (simp add: S_ISCHR_def S_ISBLK_def S_IFMT_def)




section \<open>Capability probes: results\<close>


lemma try_except_raised:
  "e \<in> set classes \<Longrightarrow> try_except classes (Inl e) = Inr False"
  by (simp add: try_except_def)









section \<open>Mount synchronisation: results\<close>

lemma wait_loop_never:
  "(\<forall>t. ismount t \<noteq> mounted) \<Longrightarrow> now < deadline + 100 \<Longrightarrow>
   \<exists>t. wait_loop ismount mounted deadline now = (t, False) \<and> deadline \<le> t \<and> t < deadline + 100"
proof (induction ismount mounted deadline now rule: wait_loop.induct)
  case (1 ismount mounted timeout now)
  show ?case
  proof (cases "timeout > now")
    case True
    with 1 show ?thesis by (subst wait_loop.simps) simp
  next
    case False
    with 1(3) show ?thesis by (subst wait_loop.simps) simp
  qed
qed

lemma wait_loop_reaches:
  "ismount (now + 100 * int k) = mounted \<Longrightarrow> now + 100 * int k < deadline \<Longrightarrow>
   snd (wait_loop ismount mounted deadline now) = True"
proof (induction k arbitrary: now)
  case 0
  then show ?case by (subst wait_loop.simps) simp
next
  case (Suc k)
  have lt: "now < deadline" using Suc.prems(2) by simp
  show ?case
  proof (cases "ismount now = mounted")
    case True
    with lt show ?thesis by (subst wait_loop.simps) simp
  next
    case False
    have "snd (wait_loop ismount mounted deadline (now + 100)) = True"
      using Suc.prems by (intro Suc.IH) (simp_all add: algebra_simps)
    with False lt show ?thesis by (subst wait_loop.simps) simp
  qed
qed

text \<open>
  C9: when the oracle never reports the target state, \<open>wait_for_mountstate\<close> raises a
  \<open>TimeoutError\<close> whose message names the direction and the mountpoint, no earlier than
  \<open>timeout\<close> after its start and less than one polling interval (100 ms) after that;
  when the oracle reports the target state at one of the polls before the deadline, it
  returns without error.
\<close>

theorem wait_for_mountstate_bounded:
  "(0 \<le> timeout \<and> (\<forall>t. ismount t \<noteq> mounted) \<longrightarrow>
      (\<exists>t. wait_for_mountstate ismount now mountpoint mounted timeout =
              (t, Inl (TimeoutError (''Waiting for '' @ (if mounted then ''mount'' else ''umount'')
                                      @ '' of '' @ mountpoint))) \<and>
           now + timeout \<le> t \<and> t < now + timeout + 100)) \<and>
   ((\<exists>k. 100 * int k < timeout \<and> ismount (now + 100 * int k) = mounted) \<longrightarrow>
      snd (wait_for_mountstate ismount now mountpoint mounted timeout) = Inr ())"
proof (intro conjI impI)
  assume a: "0 \<le> timeout \<and> (\<forall>t. ismount t \<noteq> mounted)"
  then have "now < (timeout + now) + 100" by simp
  with a obtain t where t: "wait_loop ismount mounted (timeout + now) now = (t, False)"
      "timeout + now \<le> t" "t < timeout + now + 100"
    using wait_loop_never [of ismount mounted now "timeout + now"] by blast
  then show "\<exists>t. wait_for_mountstate ismount now mountpoint mounted timeout =
              (t, Inl (TimeoutError (''Waiting for '' @ (if mounted then ''mount'' else ''umount'')
                                      @ '' of '' @ mountpoint))) \<and>
           now + timeout \<le> t \<and> t < now + timeout + 100"
    by (simp add: wait_for_mountstate_def Let_def add.commute)
next
  assume "\<exists>k. 100 * int k < timeout \<and> ismount (now + 100 * int k) = mounted"
  then obtain k where k: "100 * int k < timeout" "ismount (now + 100 * int k) = mounted"
    by blast
  then have "snd (wait_loop ismount mounted (timeout + now) now) = True"
    by (intro wait_loop_reaches [of ismount now k mounted]) simp_all
  then obtain t where "wait_loop ismount mounted (timeout + now) now = (t, True)"
    by (cases "wait_loop ismount mounted (timeout + now) now") simp
  then show "snd (wait_for_mountstate ismount now mountpoint mounted timeout) = Inr ()"
    by (simp add: wait_for_mountstate_def)
qed

theorem wait_for_mountstate_bounded_witness:
  "(\<exists>t. wait_for_mountstate (\<lambda>t. False) 0 ''/mnt'' True 5000 =
          (t, Inl (TimeoutError ''Waiting for mount of /mnt'')) \<and> 5000 \<le> t \<and> t < 5100) \<and>
   (\<exists>t. wait_for_mountstate (\<lambda>t. True) 0 ''/mnt'' False 5000 =
          (t, Inl (TimeoutError ''Waiting for umount of /mnt'')) \<and> 5000 \<le> t \<and> t < 5100) \<and>
   snd (wait_for_mountstate (\<lambda>t. 300 \<le> t) 0 ''/mnt'' True 5000) = Inr ()"
proof -
  have "\<exists>k. 100 * int k < 5000 \<and> (300 \<le> 0 + 100 * int k) = True"
    by (rule exI [of _ 3]) simp
  then show ?thesis
    using wait_for_mountstate_bounded [of 5000 "\<lambda>t. False" True 0 "''/mnt''"]
      wait_for_mountstate_bounded [of 5000 "\<lambda>t. True" False 0 "''/mnt''"]
      wait_for_mountstate_bounded [of 5000 "\<lambda>t. 300 \<le> t" True 0 "''/mnt''"]
    by simp
qed

text \<open>
  C2 (as amended): with \<open>os_fork\<close> set, the process in which the first \<open>os.fork()\<close>
  returns a pid (the caller) goes on to \<open>wait_for_mountstate(mountpoint, mounted=True)\<close>
  and yields only when that wait has returned; the mount command is run only by the
  process in which both forks returned 0 (the final descendant).
\<close>

theorem os_fork_caller_waits:
  "(fork1 env \<noteq> 0 \<longrightarrow>
      (\<exists>mk rest.
         fuse_mount env location mountpoint_arg opts fork True exit_code_arg =
           [mk, Fork,
            Wait_for_mountstate
              (case mountpoint_arg of None \<Rightarrow> mkdtemp_result env | Some m \<Rightarrow> m) True] @ rest \<and>
         (Yield \<in> set rest \<longrightarrow> wait_mounted_returns env))) \<and>
   ((\<exists>args f. Cmd args f
        \<in> set (fuse_mount env location mountpoint_arg opts fork True exit_code_arg))
      \<longleftrightarrow> fork1 env = 0 \<and> \<not> fork2 env > 0)"
  by (cases mountpoint_arg)
     (auto simp: fuse_mount_def mount_and_unmount_def Let_def)

theorem os_fork_caller_waits_witness:
  "fuse_mount
     \<lparr>mkdtemp_result = ''/tmp/tmpabc'', fork1 = 4242, fork2 = 0, cmd_result = Cmd_exits_process,
        wait_mounted_returns = False, wait_unmounted_returns = True\<rparr>
     ''/repo'' None [] True True None
   = [Mkdtemp, Fork, Wait_for_mountstate ''/tmp/tmpabc'' True, Raise] \<and>
   (\<exists>args f. Cmd args f \<in> set (fuse_mount
     \<lparr>mkdtemp_result = ''/tmp/tmpabc'', fork1 = 0, fork2 = 0, cmd_result = Cmd_exits_process,
        wait_mounted_returns = True, wait_unmounted_returns = True\<rparr>
     ''/repo'' None [] True True None))"
  using os_fork_caller_waits
    [where env = "\<lparr>mkdtemp_result = ''/tmp/tmpabc'', fork1 = 4242, fork2 = 0,
        cmd_result = Cmd_exits_process,
        wait_mounted_returns = False, wait_unmounted_returns = True\<rparr>"
       and location = "''/repo''" and mountpoint_arg = None and opts = "[]" and fork = True
       and exit_code_arg = None]
    os_fork_caller_waits
    [where env = "\<lparr>mkdtemp_result = ''/tmp/tmpabc'', fork1 = 0, fork2 = 0,
        cmd_result = Cmd_exits_process,
        wait_mounted_returns = True, wait_unmounted_returns = True\<rparr>"
       and location = "''/repo''" and mountpoint_arg = None and opts = "[]" and fork = True
       and exit_code_arg = None]
  by (simp add: fuse_mount_def mount_and_unmount_def)

text \<open>
  The caller does wait: its calls in \<open>os_fork\<close> mode, when both waits return.
\<close>

theorem os_fork_caller_waits_counterexample:
  "fuse_mount
     \<lparr>mkdtemp_result = ''/tmp/tmpabc'', fork1 = 4242, fork2 = 0, cmd_result = Cmd_exits_process,
        wait_mounted_returns = True, wait_unmounted_returns = True\<rparr>
     ''/repo'' (Some ''/mnt'') [] True True None
   = [Mkdir ''/mnt'', Fork, Wait_for_mountstate ''/mnt'' True, Yield, Umount ''/mnt'',
      Wait_for_mountstate ''/mnt'' False, Rmdir ''/mnt'', Sleep]"
  by (simp add: fuse_mount_def mount_and_unmount_def)

end
